theory Spec2Isabelle
  imports Main "HOL-Library.Word"
begin

section \<open>JavaScript values\<close>

text \<open>
  A JavaScript string is a sequence of 16-bit code units. The literals of the source are
  all ASCII, so \<open>js\<close> maps each character of a literal to the code unit of the same value.
\<close>

type_synonym jsstring = "16 word list"

definition js :: "string \<Rightarrow> jsstring" where
  "js s = map of_char s"

text \<open>
  \<^verbatim>\<open>String.prototype.trim\<close> strips, from both ends, the code units that ECMAScript calls
  WhiteSpace (TAB, VT, FF, the BOM and the Unicode space separators) or LineTerminator
  (LF, CR, LS, PS).
\<close>

definition isWhiteSpace :: "16 word \<Rightarrow> bool" where
  "isWhiteSpace c =
     (c = 0x0009 \<or> c = 0x000A \<or> c = 0x000B \<or> c = 0x000C \<or> c = 0x000D \<or> c = 0x0020
      \<or> c = 0x00A0 \<or> c = 0x1680 \<or> (0x2000 \<le> c \<and> c \<le> 0x200A)
      \<or> c = 0x2028 \<or> c = 0x2029 \<or> c = 0x202F \<or> c = 0x205F \<or> c = 0x3000 \<or> c = 0xFEFF)"

definition trim :: "jsstring \<Rightarrow> jsstring" where
  "trim s = rev (dropWhile isWhiteSpace (rev (dropWhile isWhiteSpace s)))"

text \<open>
  The values a message text can hold: the input string, whatever \<^verbatim>\<open>response.json()\<close>
  produced under the key \<^verbatim>\<open>response\<close>, or \<^verbatim>\<open>undefined\<close>. A number is kept as the bit
  pattern of its double; no arithmetic is done on it. An object is the list of its own
  properties; \<open>map_of\<close> reads one.
\<close>

datatype jsval =
    JUndefined
  | JNull
  | JBool bool
  | JNum "64 word"
  | JStr jsstring
  | JArr "jsval list"
  | JObj "(jsstring \<times> jsval) list"

text \<open>
  What the \<^verbatim>\<open>try\<close> block of \<^verbatim>\<open>sendMessage\<close> can throw: the rejection of \<^verbatim>\<open>fetch\<close>, the
  \<^verbatim>\<open>Error\<close> raised on a response that is not ok (its message ends with the status), the
  rejection of \<^verbatim>\<open>response.json()\<close>, and the TypeError of a property read on \<^verbatim>\<open>null\<close>.
\<close>

datatype error = NetworkError | HttpError nat | SyntaxError | TypeError

text \<open>
  The read \<^verbatim>\<open>data.response\<close>. It throws on \<^verbatim>\<open>null\<close> and \<^verbatim>\<open>undefined\<close>; on an object it
  gives the property, or \<^verbatim>\<open>undefined\<close> when there is none; booleans, numbers, strings and
  arrays have no property of that name.
\<close>

fun data_response :: "jsval \<Rightarrow> error + jsval" where
  "data_response JUndefined = Inl TypeError"
| "data_response JNull = Inl TypeError"
| "data_response (JObj kvs) =
     Inr (case map_of kvs (js ''response'') of None \<Rightarrow> JUndefined | Some v \<Rightarrow> v)"
| "data_response (JBool b) = Inr JUndefined"
| "data_response (JNum n) = Inr JUndefined"
| "data_response (JStr t) = Inr JUndefined"
| "data_response (JArr vs) = Inr JUndefined"

section \<open>The component state and the outside world\<close>

record message =
  sender :: jsstring
  "text" :: jsval

record jsfile =
  name :: jsstring
  contents :: "8 word list"

text \<open>The four \<^verbatim>\<open>useState\<close> hooks of \<^verbatim>\<open>App\<close>; \<^verbatim>\<open>selectedFile\<close> starts as \<^verbatim>\<open>null\<close>.\<close>

record state =
  messages :: "message list"
  input :: jsstring
  isLoading :: bool
  selectedFile :: "jsfile option"

definition initial :: state where
  "initial = \<lparr>messages = [], input = [], isLoading = False, selectedFile = None\<rparr>"

text \<open>
  The argument of \<^verbatim>\<open>fetch\<close>. The field \<open>body\<close> holds the object handed to
  \<^verbatim>\<open>JSON.stringify\<close>.
\<close>

record request =
  url :: jsstring
  http_method :: jsstring
  headers :: "(jsstring \<times> jsstring) list"
  body :: jsval

text \<open>
  What the awaited \<^verbatim>\<open>fetch\<close> hands back: a rejection, or a response with \<^verbatim>\<open>ok\<close>,
  \<^verbatim>\<open>status\<close> and the outcome of \<^verbatim>\<open>response.json()\<close> (\<open>None\<close> when that promise rejects).
\<close>

record response =
  ok :: bool
  status :: nat
  json :: "jsval option"

datatype fetch_result = Rejected | Resolved response

text \<open>
  A handler does not change the state in place: it calls the setters of the hooks,
  \<^verbatim>\<open>fetch\<close> and the console, in program order. \<open>SetMessages m\<close> is the functional update
  \<^verbatim>\<open>setMessages(prevMessages => [...prevMessages, m])\<close>, the only form the source uses.
\<close>

datatype effect =
    SetMessages message
  | SetInput jsstring
  | SetIsLoading bool
  | SetSelectedFile jsfile
  | Fetch request
  | ConsoleError jsstring error
  | ConsoleLog jsstring jsstring

fun apply_effect :: "effect \<Rightarrow> state \<Rightarrow> state" where
  "apply_effect (SetMessages m) s = s\<lparr>messages := messages s @ [m]\<rparr>"
| "apply_effect (SetInput v) s = s\<lparr>input := v\<rparr>"
| "apply_effect (SetIsLoading b) s = s\<lparr>isLoading := b\<rparr>"
| "apply_effect (SetSelectedFile f) s = s\<lparr>selectedFile := Some f\<rparr>"
| "apply_effect (Fetch q) s = s"
| "apply_effect (ConsoleError t e) s = s"
| "apply_effect (ConsoleLog t v) s = s"

fun run :: "effect list \<Rightarrow> state \<Rightarrow> state" where
  "run [] s = s"
| "run (e # es) s = run es (apply_effect e s)"

text \<open>The requests a handler issues, in order.\<close>

fun fetches :: "effect list \<Rightarrow> request list" where
  "fetches [] = []"
| "fetches (Fetch q # es) = q # fetches es"
| "fetches (e # es) = fetches es"

section \<open>The handlers of \<^verbatim>\<open>src/frontend/src/App.jsx\<close>\<close>

definition API_BASE_URL :: jsstring where
  "API_BASE_URL = js ''/api''"

definition errorMessage :: message where
  "errorMessage =
     \<lparr>sender = js ''bot'',
      text = JStr (js ''Desculpe, ocorreu um erro ao se conectar com o servidor.'')\<rparr>"

text \<open>
  \<^verbatim>\<open>sendMessage\<close> up to its first \<^verbatim>\<open>await\<close>. The closure reads \<^verbatim>\<open>input\<close> as rendered, so
  \<^verbatim>\<open>userMessage.text\<close> is the state's input, before \<^verbatim>\<open>setInput('')\<close> takes effect.
\<close>

definition sendMessage_sync :: "state \<Rightarrow> effect list" where
  "sendMessage_sync s =
     (if trim (input s) = [] then []
      else
        let userMessage = \<lparr>sender = js ''user'', text = JStr (input s)\<rparr> in
        [SetMessages userMessage,
         SetInput [],
         SetIsLoading True,
         Fetch \<lparr>url = API_BASE_URL @ js ''/chat'',
                http_method = js ''POST'',
                headers = [(js ''Content-Type'', js ''application/json'')],
                body = JObj [(js ''user_message'', text userMessage)]\<rparr>])"

text \<open>The rest of the \<^verbatim>\<open>try\<close> block, from the result of the awaited \<^verbatim>\<open>fetch\<close> on.\<close>

definition sendMessage_try :: "fetch_result \<Rightarrow> error + message" where
  "sendMessage_try r =
     (case r of
        Rejected \<Rightarrow> Inl NetworkError
      | Resolved response \<Rightarrow>
          if \<not> ok response then Inl (HttpError (status response))
          else
            (case json response of
               None \<Rightarrow> Inl SyntaxError
             | Some data \<Rightarrow>
                 (case data_response data of
                    Inl e \<Rightarrow> Inl e
                  | Inr v \<Rightarrow> Inr \<lparr>sender = js ''bot'', text = v\<rparr>)))"

text \<open>\<^verbatim>\<open>sendMessage\<close> after the \<^verbatim>\<open>await\<close>: the \<^verbatim>\<open>try\<close>, its \<^verbatim>\<open>catch\<close> and the \<^verbatim>\<open>finally\<close>.\<close>

definition sendMessage_await :: "fetch_result \<Rightarrow> effect list" where
  "sendMessage_await r =
     (case sendMessage_try r of
        Inr botMessage \<Rightarrow> [SetMessages botMessage]
      | Inl error \<Rightarrow>
          [ConsoleError (js ''Erro ao enviar mensagem:'') error, SetMessages errorMessage])
     @ [SetIsLoading False]"

definition handleKeyDown :: "jsstring \<Rightarrow> state \<Rightarrow> effect list" where
  "handleKeyDown key s =
     (if key = js ''Enter'' \<and> \<not> isLoading s then sendMessage_sync s else [])"

text \<open>
  The send button has \<^verbatim>\<open>onClick={sendMessage}\<close> and \<^verbatim>\<open>disabled={isLoading}\<close>: a disabled
  button dispatches no click.
\<close>

definition button_onClick :: "state \<Rightarrow> effect list" where
  "button_onClick s = (if isLoading s then [] else sendMessage_sync s)"

text \<open>The text field's \<^verbatim>\<open>onChange\<close>, with \<^verbatim>\<open>e.target.value\<close> as argument.\<close>

definition input_onChange :: "jsstring \<Rightarrow> effect list" where
  "input_onChange v = [SetInput v]"

text \<open>
  \<^verbatim>\<open>handleFileChange\<close>, with \<^verbatim>\<open>event.target.files\<close> as argument; \<^verbatim>\<open>files[0]\<close> of an empty
  list is \<^verbatim>\<open>undefined\<close>, and a File object is always truthy.
\<close>

definition handleFileChange :: "jsfile list \<Rightarrow> effect list" where
  "handleFileChange files =
     (case files of
        [] \<Rightarrow> []
      | file # rest \<Rightarrow>
          [SetSelectedFile file, ConsoleLog (js ''Arquivo selecionado:'') (name file)])"

section \<open>The variant of \<^verbatim>\<open>sendMessage\<close> in \<^verbatim>\<open>src/Dockerfile\<close>\<close>

text \<open>
  The component that follows the Docker directives has the first three hooks only; it is
  modelled on the same record and never touches \<open>selectedFile\<close>.
\<close>

definition API_URL :: jsstring where
  "API_URL = js ''http://localhost:8000''"

definition docker_sendMessage_sync :: "state \<Rightarrow> effect list" where
  "docker_sendMessage_sync s =
     (if trim (input s) = [] then []
      else
        let userMessage = \<lparr>sender = js ''user'', text = JStr (input s)\<rparr> in
        [SetMessages userMessage,
         SetInput [],
         SetIsLoading True,
         Fetch \<lparr>url = API_URL @ js ''/chat'',
                http_method = js ''POST'',
                headers = [(js ''Content-Type'', js ''application/json'')],
                body = JObj [(js ''message'', JStr (input s))]\<rparr>])"

definition docker_sendMessage_try :: "fetch_result \<Rightarrow> error + message" where
  "docker_sendMessage_try r =
     (case r of
        Rejected \<Rightarrow> Inl NetworkError
      | Resolved response \<Rightarrow>
          if \<not> ok response then Inl (HttpError (status response))
          else
            (case json response of
               None \<Rightarrow> Inl SyntaxError
             | Some data \<Rightarrow>
                 (case data_response data of
                    Inl e \<Rightarrow> Inl e
                  | Inr v \<Rightarrow> Inr \<lparr>sender = js ''bot'', text = v\<rparr>)))"

definition docker_sendMessage_await :: "fetch_result \<Rightarrow> effect list" where
  "docker_sendMessage_await r =
     (case docker_sendMessage_try r of
        Inr botMessage \<Rightarrow> [SetMessages botMessage]
      | Inl error \<Rightarrow>
          [ConsoleError (js ''Erro ao enviar mensagem:'') error,
           SetMessages
             \<lparr>sender = js ''bot'',
              text = JStr (js ''Desculpe, ocorreu um erro ao se conectar com o servidor.'')\<rparr>])
     @ [SetIsLoading False]"

section \<open>The session: events of the page and of the network\<close>

text \<open>
  The page runs one handler at a time. A session is the component state together with the
  requests that were issued and have not been answered yet. \<open>Resolve r\<close> is the arrival
  of the result \<open>r\<close> for the oldest of them; it resumes \<^verbatim>\<open>sendMessage\<close> after its
  \<^verbatim>\<open>await\<close>, and cannot happen when nothing is in flight.
\<close>

record session =
  app :: state
  inflight :: "request list"

datatype event =
    KeyDown jsstring
  | Click
  | Change jsstring
  | FileChange "jsfile list"
  | Resolve fetch_result

definition dispatch :: "effect list \<Rightarrow> session \<Rightarrow> session" where
  "dispatch es \<sigma> = \<lparr>app = run es (app \<sigma>), inflight = inflight \<sigma> @ fetches es\<rparr>"

fun step :: "event \<Rightarrow> session \<Rightarrow> session" where
  "step (KeyDown key) \<sigma> = dispatch (handleKeyDown key (app \<sigma>)) \<sigma>"
| "step Click \<sigma> = dispatch (button_onClick (app \<sigma>)) \<sigma>"
| "step (Change v) \<sigma> = dispatch (input_onChange v) \<sigma>"
| "step (FileChange files) \<sigma> = dispatch (handleFileChange files) \<sigma>"
| "step (Resolve r) \<sigma> =
     (case inflight \<sigma> of
        [] \<Rightarrow> \<sigma>
      | q # qs \<Rightarrow> dispatch (sendMessage_await r) (\<sigma>\<lparr>inflight := qs\<rparr>))"

fun steps :: "event list \<Rightarrow> session \<Rightarrow> session" where
  "steps [] \<sigma> = \<sigma>"
| "steps (e # es) \<sigma> = steps es (step e \<sigma>)"

text \<open>The two ways the page offers to submit: the Enter key in the text field, the button.\<close>

fun is_submit :: "event \<Rightarrow> bool" where
  "is_submit (KeyDown key) = (key = js ''Enter'')"
| "is_submit Click = True"
| "is_submit (Change v) = False"
| "is_submit (FileChange files) = False"
| "is_submit (Resolve r) = False"

fun is_Resolve :: "event \<Rightarrow> bool" where
  "is_Resolve (Resolve r) = True"
| "is_Resolve (KeyDown key) = False"
| "is_Resolve Click = False"
| "is_Resolve (Change v) = False"
| "is_Resolve (FileChange files) = False"

section \<open>Auxiliary facts\<close>

lemma dropWhile_Nil_iff: "dropWhile P xs = [] \<longleftrightarrow> list_all P xs"
  by (induction xs) auto

lemma trim_Nil_iff: "trim s = [] \<longleftrightarrow> list_all isWhiteSpace s"
proof
  assume "trim s = []"
  then have "dropWhile isWhiteSpace (rev (dropWhile isWhiteSpace s)) = []"
    by (simp add: trim_def)
  then have "list_all isWhiteSpace (rev (dropWhile isWhiteSpace s))"
    by (simp only: dropWhile_Nil_iff)
  then have all: "list_all isWhiteSpace (dropWhile isWhiteSpace s)"
    by (simp add: list_all_iff)
  have "dropWhile isWhiteSpace s = []"
  proof (cases "dropWhile isWhiteSpace s")
    case Nil
    then show ?thesis .
  next
    case (Cons c cs)
    then have "\<not> isWhiteSpace c"
      using hd_dropWhile [of isWhiteSpace s] by simp
    with all Cons show ?thesis by simp
  qed
  then show "list_all isWhiteSpace s"
    by (simp only: dropWhile_Nil_iff)
next
  assume "list_all isWhiteSpace s"
  then have "dropWhile isWhiteSpace s = []"
    by (simp only: dropWhile_Nil_iff)
  then show "trim s = []"
    by (simp only: trim_def rev.simps dropWhile.simps)
qed

lemma steps_append: "steps (es @ fs) \<sigma> = steps fs (steps es \<sigma>)"
  by (induction es arbitrary: \<sigma>) auto

lemma sendMessage_sync_valid:
  "trim (input s) \<noteq> [] \<Longrightarrow>
   sendMessage_sync s =
     [SetMessages \<lparr>sender = js ''user'', text = JStr (input s)\<rparr>,
      SetInput [],
      SetIsLoading True,
      Fetch \<lparr>url = API_BASE_URL @ js ''/chat'',
             http_method = js ''POST'',
             headers = [(js ''Content-Type'', js ''application/json'')],
             body = JObj [(js ''user_message'', JStr (input s))]\<rparr>]"
  by (simp add: sendMessage_sync_def)

lemma sendMessage_sync_blank: "trim (input s) = [] \<Longrightarrow> sendMessage_sync s = []"
  by (simp add: sendMessage_sync_def)

lemma dispatch_Nil: "dispatch [] \<sigma> = \<sigma>"
  by (simp add: dispatch_def)

lemma submit_effects:
  "is_submit e \<Longrightarrow> \<not> isLoading (app \<sigma>) \<Longrightarrow> step e \<sigma> = dispatch (sendMessage_sync (app \<sigma>)) \<sigma>"
  by (cases e) (simp_all add: handleKeyDown_def button_onClick_def)

lemma submit_busy: "is_submit e \<Longrightarrow> isLoading (app \<sigma>) \<Longrightarrow> step e \<sigma> = \<sigma>"
  by (cases e) (simp_all add: handleKeyDown_def button_onClick_def dispatch_Nil)

lemma step_submit:
  assumes "is_submit e" "\<not> isLoading (app \<sigma>)" "trim (input (app \<sigma>)) \<noteq> []"
  shows "step e \<sigma> =
    \<lparr>app = (app \<sigma>)\<lparr>messages := messages (app \<sigma>) @ [\<lparr>sender = js ''user'', text = JStr (input (app \<sigma>))\<rparr>],
                    input := [], isLoading := True\<rparr>,
     inflight = inflight \<sigma> @
       [\<lparr>url = API_BASE_URL @ js ''/chat'',
         http_method = js ''POST'',
         headers = [(js ''Content-Type'', js ''application/json'')],
         body = JObj [(js ''user_message'', JStr (input (app \<sigma>)))]\<rparr>]\<rparr>"
  using assms by (simp add: submit_effects sendMessage_sync_valid dispatch_def)


lemma apply_effect_messages: "\<exists>ms. messages (apply_effect e s) = messages s @ ms"
  by (cases e) simp_all

lemma run_messages: "\<exists>ms. messages (run es s) = messages s @ ms"
proof (induction es arbitrary: s)
  case Nil
  show ?case by simp
next
  case (Cons e es)
  obtain ms where a: "messages (apply_effect e s) = messages s @ ms"
    using apply_effect_messages by blast
  obtain ns where b: "messages (run es (apply_effect e s)) = messages (apply_effect e s) @ ns"
    using Cons.IH by blast
  from a b show ?case by simp
qed

lemma dispatch_messages: "\<exists>ms. messages (app (dispatch es \<sigma>)) = messages (app \<sigma>) @ ms"
  by (simp add: dispatch_def run_messages)

lemma step_messages: "\<exists>ms. messages (app (step e \<sigma>)) = messages (app \<sigma>) @ ms"
proof (cases e)
  case (Resolve r)
  show ?thesis
  proof (cases "inflight \<sigma>")
    case Nil
    with Resolve show ?thesis by simp
  next
    case (Cons q qs)
    have "\<exists>ms. messages (app (dispatch (sendMessage_await r) (\<sigma>\<lparr>inflight := qs\<rparr>)))
        = messages (app (\<sigma>\<lparr>inflight := qs\<rparr>)) @ ms"
      by (rule dispatch_messages)
    with Resolve Cons show ?thesis by simp
  qed
qed (simp_all add: dispatch_messages)

lemma steps_messages: "\<exists>ms. messages (app (steps es \<sigma>)) = messages (app \<sigma>) @ ms"
proof (induction es arbitrary: \<sigma>)
  case Nil
  show ?case by simp
next
  case (Cons e es)
  obtain ms where a: "messages (app (step e \<sigma>)) = messages (app \<sigma>) @ ms"
    using step_messages by blast
  obtain ns where b: "messages (app (steps es (step e \<sigma>))) = messages (app (step e \<sigma>)) @ ns"
    using Cons.IH by blast
  from a b show ?case by simp
qed

lemma busy_ui_step:
  assumes "isLoading (app \<sigma>)" "\<not> is_Resolve e"
  shows "messages (app (step e \<sigma>)) = messages (app \<sigma>) \<and> isLoading (app (step e \<sigma>))
    \<and> inflight (step e \<sigma>) = inflight \<sigma>"
  using assms
  by (cases e)
    (simp_all add: handleKeyDown_def button_onClick_def input_onChange_def handleFileChange_def
      dispatch_def split: list.splits)

lemma busy_ui_steps:
  assumes "isLoading (app \<sigma>)" "\<forall>e\<in>set es. \<not> is_Resolve e"
  shows "messages (app (steps es \<sigma>)) = messages (app \<sigma>) \<and> isLoading (app (steps es \<sigma>))
    \<and> inflight (steps es \<sigma>) = inflight \<sigma>"
  using assms
proof (induction es arbitrary: \<sigma>)
  case Nil
  then show ?case by simp
next
  case (Cons e es)
  from Cons.prems have s: "messages (app (step e \<sigma>)) = messages (app \<sigma>)"
    "isLoading (app (step e \<sigma>))" "inflight (step e \<sigma>) = inflight \<sigma>"
    using busy_ui_step [of \<sigma> e] by simp_all
  from Cons.prems have "\<forall>e\<in>set es. \<not> is_Resolve e" by simp
  with s(2) have "messages (app (steps es (step e \<sigma>))) = messages (app (step e \<sigma>))
    \<and> isLoading (app (steps es (step e \<sigma>)))
    \<and> inflight (steps es (step e \<sigma>)) = inflight (step e \<sigma>)"
    by (rule Cons.IH)
  with s show ?case by simp
qed

lemma run_await:
  "run (sendMessage_await r) s =
     s\<lparr>messages := messages s @ [case sendMessage_try r of Inl e \<Rightarrow> errorMessage | Inr m \<Rightarrow> m],
       isLoading := False\<rparr>"
  by (simp add: sendMessage_await_def split: sum.splits)

lemma fetches_await: "fetches (sendMessage_await r) = []"
  by (simp add: sendMessage_await_def split: sum.splits)

lemma step_Resolve:
  "inflight \<sigma> = q # qs \<Longrightarrow>
   step (Resolve r) \<sigma> =
     \<lparr>app = (app \<sigma>)\<lparr>messages := messages (app \<sigma>)
                       @ [case sendMessage_try r of Inl e \<Rightarrow> errorMessage | Inr m \<Rightarrow> m],
                     isLoading := False\<rparr>,
      inflight = qs\<rparr>"
  by (simp add: dispatch_def run_await fetches_await)

lemma turn:
  assumes "\<not> isLoading (app \<sigma>)" "inflight \<sigma> = []" "trim (input (app \<sigma>)) \<noteq> []" "is_submit e"
    "\<forall>e'\<in>set es. \<not> is_Resolve e'"
  shows "messages (app (steps (e # es @ [Resolve r]) \<sigma>)) =
      messages (app \<sigma>) @ [\<lparr>sender = js ''user'', text = JStr (input (app \<sigma>))\<rparr>,
        case sendMessage_try r of Inl e \<Rightarrow> errorMessage | Inr m \<Rightarrow> m]"
    and "\<not> isLoading (app (steps (e # es @ [Resolve r]) \<sigma>))"
    and "inflight (steps (e # es @ [Resolve r]) \<sigma>) = []"
proof -
  let ?q = "\<lparr>url = API_BASE_URL @ js ''/chat'', http_method = js ''POST'',
             headers = [(js ''Content-Type'', js ''application/json'')],
             body = JObj [(js ''user_message'', JStr (input (app \<sigma>)))]\<rparr>"
  let ?\<sigma>1 = "step e \<sigma>"
  let ?\<sigma>2 = "steps es ?\<sigma>1"
  have s1: "messages (app ?\<sigma>1) = messages (app \<sigma>) @ [\<lparr>sender = js ''user'', text = JStr (input (app \<sigma>))\<rparr>]"
    "isLoading (app ?\<sigma>1)" "inflight ?\<sigma>1 = [?q]"
    using assms(1-4) by (simp_all add: step_submit)
  have s2: "messages (app ?\<sigma>2) = messages (app ?\<sigma>1)" "inflight ?\<sigma>2 = inflight ?\<sigma>1"
    using busy_ui_steps [OF s1(2) assms(5)] by simp_all
  have i2: "inflight ?\<sigma>2 = ?q # []"
    using s2(2) s1(3) by simp
  have fin: "steps (e # es @ [Resolve r]) \<sigma> = step (Resolve r) ?\<sigma>2"
    by (simp add: steps_append)
  show "messages (app (steps (e # es @ [Resolve r]) \<sigma>)) =
      messages (app \<sigma>) @ [\<lparr>sender = js ''user'', text = JStr (input (app \<sigma>))\<rparr>,
        case sendMessage_try r of Inl e \<Rightarrow> errorMessage | Inr m \<Rightarrow> m]"
    unfolding fin step_Resolve [OF i2] using s1(1) s2(1) by simp
  show "\<not> isLoading (app (steps (e # es @ [Resolve r]) \<sigma>))"
    unfolding fin step_Resolve [OF i2] by simp
  show "inflight (steps (e # es @ [Resolve r]) \<sigma>) = []"
    unfolding fin step_Resolve [OF i2] by simp
qed

lemma try_sender: "sendMessage_try r = Inr m \<Longrightarrow> sender m = js ''bot''"
  by (auto simp: sendMessage_try_def split: fetch_result.splits if_splits option.splits sum.splits)

lemma try_failure:
  "r = Rejected \<or> (\<exists>resp. r = Resolved resp \<and> (\<not> ok resp \<or> json resp = None)) \<Longrightarrow>
   \<exists>e. sendMessage_try r = Inl e"
  by (auto simp: sendMessage_try_def)

lemma step_one_in_flight:
  assumes "if isLoading (app \<sigma>) then length (inflight \<sigma>) = 1 else inflight \<sigma> = []"
  shows "if isLoading (app (step e \<sigma>)) then length (inflight (step e \<sigma>)) = 1
    else inflight (step e \<sigma>) = []"
proof (cases e)
  case (KeyDown key)
  show ?thesis
  proof (cases "key = js ''Enter'' \<and> \<not> isLoading (app \<sigma>) \<and> trim (input (app \<sigma>)) \<noteq> []")
    case True
    then have "is_submit e" "\<not> isLoading (app \<sigma>)" "trim (input (app \<sigma>)) \<noteq> []"
      using KeyDown by simp_all
    from step_submit [OF this] assms True show ?thesis by simp
  next
    case False
    then have "handleKeyDown key (app \<sigma>) = []"
      by (auto simp: handleKeyDown_def sendMessage_sync_blank)
    with KeyDown assms show ?thesis by (simp add: dispatch_Nil)
  qed
next
  case Click
  show ?thesis
  proof (cases "\<not> isLoading (app \<sigma>) \<and> trim (input (app \<sigma>)) \<noteq> []")
    case True
    then have "is_submit e" "\<not> isLoading (app \<sigma>)" "trim (input (app \<sigma>)) \<noteq> []"
      using Click by simp_all
    from step_submit [OF this] assms True show ?thesis by simp
  next
    case False
    then have "button_onClick (app \<sigma>) = []"
      by (auto simp: button_onClick_def sendMessage_sync_blank)
    with Click assms show ?thesis by (simp add: dispatch_Nil)
  qed
next
  case (Change v)
  with assms show ?thesis by (simp add: input_onChange_def dispatch_def)
next
  case (FileChange files)
  with assms show ?thesis by (simp add: handleFileChange_def dispatch_def split: list.splits)
next
  case (Resolve r)
  show ?thesis
  proof (cases "inflight \<sigma>")
    case Nil
    with Resolve assms show ?thesis by (simp split: if_splits)
  next
    case (Cons q qs)
    with assms have "qs = []" by (simp split: if_splits)
    with Cons show ?thesis
      unfolding Resolve step_Resolve [OF Cons] by simp
  qed
qed

lemma steps_one_in_flight:
  "(if isLoading (app \<sigma>) then length (inflight \<sigma>) = 1 else inflight \<sigma> = []) \<Longrightarrow>
   (if isLoading (app (steps es \<sigma>)) then length (inflight (steps es \<sigma>)) = 1
    else inflight (steps es \<sigma>) = [])"
proof (induction es arbitrary: \<sigma>)
  case Nil
  then show ?case by simp
next
  case (Cons e es)
  from Cons.prems have "if isLoading (app (step e \<sigma>)) then length (inflight (step e \<sigma>)) = 1
    else inflight (step e \<sigma>) = []"
    by (rule step_one_in_flight)
  then have "if isLoading (app (steps es (step e \<sigma>))) then length (inflight (steps es (step e \<sigma>))) = 1
    else inflight (steps es (step e \<sigma>)) = []"
    by (rule Cons.IH)
  then show ?case by simp
qed

lemma reachable_one_in_flight:
  "length (inflight (steps es \<lparr>app = initial, inflight = []\<rparr>)) \<le> 1"
proof -
  have "if isLoading (app (steps es \<lparr>app = initial, inflight = []\<rparr>))
    then length (inflight (steps es \<lparr>app = initial, inflight = []\<rparr>)) = 1
    else inflight (steps es \<lparr>app = initial, inflight = []\<rparr>) = []"
    by (rule steps_one_in_flight) (simp add: initial_def)
  then show ?thesis by (simp split: if_splits)
qed

section \<open>The claims\<close>

subsection \<open>C1: a success response without a usable reply field\<close>

text \<open>
  C1, as amended. \<^verbatim>\<open>sendMessage\<close> does not validate the body of a success response. When
  the body parsed and is neither \<^verbatim>\<open>null\<close> nor \<^verbatim>\<open>undefined\<close>, the turn ends by appending a
  bot entry, with no error logged: its text is the value found under \<^verbatim>\<open>response\<close> when the
  body is an object that has the field, whatever the type of that value, and \<^verbatim>\<open>undefined\<close>
  in every other case. The fixed error entry is not appended.
\<close>

theorem reply_field_unchecked:
  assumes "ok resp" and "json resp = Some data" and "data \<noteq> JNull" and "data \<noteq> JUndefined"
  shows "sendMessage_await (Resolved resp) =
    [SetMessages
       \<lparr>sender = js ''bot'',
        text = (case data of
                  JObj kvs \<Rightarrow> (case map_of kvs (js ''response'') of None \<Rightarrow> JUndefined | Some v \<Rightarrow> v)
                | _ \<Rightarrow> JUndefined)\<rparr>,
     SetIsLoading False]"
  using assms by (cases data) (simp_all add: sendMessage_await_def sendMessage_try_def)

text \<open>The amended C1 at a body whose \<^verbatim>\<open>response\<close> field holds a number.\<close>

theorem reply_field_unchecked_witness:
  "sendMessage_await (Resolved \<lparr>ok = True, status = 200, json = Some (JObj [(js ''response'', JNum 7)])\<rparr>)
     = [SetMessages \<lparr>sender = js ''bot'', text = JNum 7\<rparr>, SetIsLoading False]"
  using reply_field_unchecked
    [of "\<lparr>ok = True, status = 200, json = Some (JObj [(js ''response'', JNum 7)])\<rparr>"
        "JObj [(js ''response'', JNum 7)]"]
  by simp

text \<open>
  C1 as stated fails. A status 200 response with the body \<^verbatim>\<open>{}\<close> ends the turn with a bot
  entry whose text is \<^verbatim>\<open>undefined\<close>, which is not the error entry; with the body
  \<^verbatim>\<open>{"response": true}\<close> the bot entry carries the boolean.
\<close>

theorem missing_reply_counterexample:
  "messages (app (steps
      [Click, Resolve (Resolved \<lparr>ok = True, status = 200, json = Some (JObj [])\<rparr>)]
      \<lparr>app = initial\<lparr>input := js ''Hi''\<rparr>, inflight = []\<rparr>))
     = [\<lparr>sender = js ''user'', text = JStr (js ''Hi'')\<rparr>, \<lparr>sender = js ''bot'', text = JUndefined\<rparr>]
   \<and> \<lparr>sender = js ''bot'', text = JUndefined\<rparr> \<noteq> errorMessage
   \<and> sendMessage_await
        (Resolved \<lparr>ok = True, status = 200, json = Some (JObj [(js ''response'', JBool True)])\<rparr>)
     = [SetMessages \<lparr>sender = js ''bot'', text = JBool True\<rparr>, SetIsLoading False]"
  by (simp add: initial_def button_onClick_def sendMessage_sync_def trim_def isWhiteSpace_def
      dispatch_def sendMessage_await_def sendMessage_try_def errorMessage_def js_def)

subsection \<open>C2: what a valid submit does\<close>

text \<open>
  C2, as amended. For every input whose trim is not empty, a submit in a state that is not
  loading appends a user entry whose text is the input as typed (not trimmed), clears the
  input, sets \<open>isLoading\<close>, and issues one POST request to \<^verbatim>\<open>/api/chat\<close> whose body carries
  that same untrimmed input under \<^verbatim>\<open>user_message\<close>.
\<close>

theorem valid_submit_sends_raw_input:
  assumes "is_submit e" and "\<not> isLoading (app \<sigma>)" and "trim (input (app \<sigma>)) \<noteq> []"
  shows "step e \<sigma> =
    \<lparr>app = (app \<sigma>)
       \<lparr>messages := messages (app \<sigma>) @ [\<lparr>sender = js ''user'', text = JStr (input (app \<sigma>))\<rparr>],
        input := [],
        isLoading := True\<rparr>,
     inflight = inflight \<sigma> @
       [\<lparr>url = API_BASE_URL @ js ''/chat'',
         http_method = js ''POST'',
         headers = [(js ''Content-Type'', js ''application/json'')],
         body = JObj [(js ''user_message'', JStr (input (app \<sigma>)))]\<rparr>]\<rparr>"
  using assms by (rule step_submit)

text \<open>The amended C2 at the Enter key with the input \<^verbatim>\<open>" a"\<close>.\<close>

theorem valid_submit_sends_raw_input_witness:
  "step (KeyDown (js ''Enter'')) \<lparr>app = initial\<lparr>input := js '' a''\<rparr>, inflight = []\<rparr> =
    \<lparr>app = \<lparr>messages = [\<lparr>sender = js ''user'', text = JStr (js '' a'')\<rparr>], input = [],
            isLoading = True, selectedFile = None\<rparr>,
     inflight =
       [\<lparr>url = js ''/api/chat'',
         http_method = js ''POST'',
         headers = [(js ''Content-Type'', js ''application/json'')],
         body = JObj [(js ''user_message'', JStr (js '' a''))]\<rparr>]\<rparr>"
  using valid_submit_sends_raw_input
    [of "KeyDown (js ''Enter'')" "\<lparr>app = initial\<lparr>input := js '' a''\<rparr>, inflight = []\<rparr>"]
  by (simp add: initial_def trim_def isWhiteSpace_def js_def API_BASE_URL_def)

text \<open>
  C2 as stated fails. The input \<^verbatim>\<open>" a"\<close> trims to \<^verbatim>\<open>"a"\<close>, yet the appended user entry and
  the request body both hold \<^verbatim>\<open>" a"\<close>.
\<close>

theorem submit_trims_counterexample:
  "trim (js '' a'') = js ''a''
   \<and> messages (app (step Click \<lparr>app = initial\<lparr>input := js '' a''\<rparr>, inflight = []\<rparr>))
       = [\<lparr>sender = js ''user'', text = JStr (js '' a'')\<rparr>]
   \<and> map body (inflight (step Click \<lparr>app = initial\<lparr>input := js '' a''\<rparr>, inflight = []\<rparr>))
       = [JObj [(js ''user_message'', JStr (js '' a''))]]
   \<and> JStr (js '' a'') \<noteq> JStr (trim (js '' a''))"
  by (simp add: initial_def button_onClick_def sendMessage_sync_def trim_def isWhiteSpace_def
      dispatch_def js_def)

subsection \<open>C3: a failed gateway call\<close>

text \<open>
  C3. Take a session that is not loading, with nothing in flight and an input whose trim
  is not empty; submit, let any events of the page follow, then let the request fail: the
  \<^verbatim>\<open>fetch\<close> rejects, or the response is not ok, or its body does not parse. The transcript
  then ends with the user entry followed by one bot entry holding the fixed apology, a
  constant that does not depend on the failure; \<open>isLoading\<close> is false again and nothing is
  in flight; and a later submit of a non-blank text \<open>t\<close> does what a submit always does:
  it appends the user entry for \<open>t\<close>, clears the input, sets \<open>isLoading\<close> and issues the
  request for \<open>t\<close>.
\<close>

theorem failure_path:
  assumes "\<not> isLoading (app \<sigma>)" and "inflight \<sigma> = []"
    and "trim (input (app \<sigma>)) \<noteq> []" and "is_submit e"
    and "\<forall>e'\<in>set es. \<not> is_Resolve e'"
    and "r = Rejected \<or> (\<exists>resp. r = Resolved resp \<and> (\<not> ok resp \<or> json resp = None))"
    and "trim t \<noteq> []" and "is_submit e2"
  shows "(let \<sigma>' = steps (e # es @ [Resolve r]) \<sigma> in
      messages (app \<sigma>') =
        messages (app \<sigma>) @
          [\<lparr>sender = js ''user'', text = JStr (input (app \<sigma>))\<rparr>,
           \<lparr>sender = js ''bot'',
            text = JStr (js ''Desculpe, ocorreu um erro ao se conectar com o servidor.'')\<rparr>]
      \<and> \<not> isLoading (app \<sigma>')
      \<and> inflight \<sigma>' = []
      \<and> step e2 (step (Change t) \<sigma>') =
          \<lparr>app = (app \<sigma>')
             \<lparr>messages := messages (app \<sigma>') @ [\<lparr>sender = js ''user'', text = JStr t\<rparr>],
              input := [],
              isLoading := True\<rparr>,
           inflight =
             [\<lparr>url = API_BASE_URL @ js ''/chat'',
               http_method = js ''POST'',
               headers = [(js ''Content-Type'', js ''application/json'')],
               body = JObj [(js ''user_message'', JStr t)]\<rparr>]\<rparr>)"
proof -
  define \<sigma>' where "\<sigma>' = steps (e # es @ [Resolve r]) \<sigma>"
  define \<sigma>c where "\<sigma>c = step (Change t) \<sigma>'"
  obtain err where err: "sendMessage_try r = Inl err"
    using try_failure [OF assms(6)] by blast
  have m: "messages (app \<sigma>') =
      messages (app \<sigma>) @ [\<lparr>sender = js ''user'', text = JStr (input (app \<sigma>))\<rparr>, errorMessage]"
    unfolding \<sigma>'_def using turn(1) [OF assms(1-5), of r] err by simp
  have b: "\<not> isLoading (app \<sigma>')"
    unfolding \<sigma>'_def using assms(1-5) by (rule turn(2))
  have i: "inflight \<sigma>' = []"
    unfolding \<sigma>'_def using assms(1-5) by (rule turn(3))
  have c: "\<sigma>c = \<sigma>'\<lparr>app := (app \<sigma>')\<lparr>input := t\<rparr>\<rparr>"
    by (simp add: \<sigma>c_def input_onChange_def dispatch_def)
  have c1: "\<not> isLoading (app \<sigma>c)" "trim (input (app \<sigma>c)) \<noteq> []"
    using b assms(7) by (simp_all add: c)
  have n: "step e2 \<sigma>c =
      \<lparr>app = (app \<sigma>')
         \<lparr>messages := messages (app \<sigma>') @ [\<lparr>sender = js ''user'', text = JStr t\<rparr>],
          input := [],
          isLoading := True\<rparr>,
       inflight =
         [\<lparr>url = API_BASE_URL @ js ''/chat'',
           http_method = js ''POST'',
           headers = [(js ''Content-Type'', js ''application/json'')],
           body = JObj [(js ''user_message'', JStr t)]\<rparr>]\<rparr>"
    unfolding step_submit [OF assms(8) c1] by (simp add: c i)
  from m b i n show ?thesis
    unfolding \<sigma>c_def \<sigma>'_def by (simp only: Let_def errorMessage_def simp_thms)
qed

text \<open>
  C3 at a status 500 answer to \<^verbatim>\<open>"Hello"\<close>, with an edit and a click while the request is
  in flight, followed by a second submit.
\<close>

theorem failure_path_witness:
  "messages (app (steps
      [Click, Change (js ''typing''), Click, Resolve (Resolved \<lparr>ok = False, status = 500, json = None\<rparr>)]
      \<lparr>app = initial\<lparr>input := js ''Hello''\<rparr>, inflight = []\<rparr>))
     = [\<lparr>sender = js ''user'', text = JStr (js ''Hello'')\<rparr>,
        \<lparr>sender = js ''bot'',
         text = JStr (js ''Desculpe, ocorreu um erro ao se conectar com o servidor.'')\<rparr>]
   \<and> messages (app (steps
      [Click, Change (js ''typing''), Click, Resolve (Resolved \<lparr>ok = False, status = 500, json = None\<rparr>),
       Change (js ''again''), KeyDown (js ''Enter'')]
      \<lparr>app = initial\<lparr>input := js ''Hello''\<rparr>, inflight = []\<rparr>))
     = [\<lparr>sender = js ''user'', text = JStr (js ''Hello'')\<rparr>,
        \<lparr>sender = js ''bot'',
         text = JStr (js ''Desculpe, ocorreu um erro ao se conectar com o servidor.'')\<rparr>,
        \<lparr>sender = js ''user'', text = JStr (js ''again'')\<rparr>]"
proof -
  have w: "trim (js ''Hello'') \<noteq> []" "trim (js ''again'') \<noteq> []"
    by (simp_all add: trim_def isWhiteSpace_def js_def)
  have u: "\<forall>e'\<in>set [Change (js ''typing''), Click]. \<not> is_Resolve e'"
    by simp
  have f: "Resolved \<lparr>ok = False, status = 500, json = None\<rparr> = Rejected
      \<or> (\<exists>resp. Resolved \<lparr>ok = False, status = 500, json = None\<rparr> = Resolved resp
            \<and> (\<not> ok resp \<or> json resp = None))"
    by simp
  have "(let \<sigma>' = steps (Click # [Change (js ''typing''), Click]
                @ [Resolve (Resolved \<lparr>ok = False, status = 500, json = None\<rparr>)])
              \<lparr>app = initial\<lparr>input := js ''Hello''\<rparr>, inflight = []\<rparr> in
      messages (app \<sigma>') =
        messages (app \<lparr>app = initial\<lparr>input := js ''Hello''\<rparr>, inflight = []\<rparr>) @
          [\<lparr>sender = js ''user'', text = JStr (input (app \<lparr>app = initial\<lparr>input := js ''Hello''\<rparr>, inflight = []\<rparr>))\<rparr>,
           \<lparr>sender = js ''bot'',
            text = JStr (js ''Desculpe, ocorreu um erro ao se conectar com o servidor.'')\<rparr>]
      \<and> \<not> isLoading (app \<sigma>')
      \<and> inflight \<sigma>' = []
      \<and> step (KeyDown (js ''Enter'')) (step (Change (js ''again'')) \<sigma>') =
          \<lparr>app = (app \<sigma>')
             \<lparr>messages := messages (app \<sigma>') @ [\<lparr>sender = js ''user'', text = JStr (js ''again'')\<rparr>],
              input := [],
              isLoading := True\<rparr>,
           inflight =
             [\<lparr>url = API_BASE_URL @ js ''/chat'',
               http_method = js ''POST'',
               headers = [(js ''Content-Type'', js ''application/json'')],
               body = JObj [(js ''user_message'', JStr (js ''again''))]\<rparr>]\<rparr>)"
    by (rule failure_path [OF _ _ _ _ u f w(2)]) (simp_all add: initial_def w(1))
  then show ?thesis
    by (simp add: Let_def steps_append initial_def)
qed


subsection \<open>C4: a resolved turn adds two entries\<close>

text \<open>
  C4. For every valid submit in an idle session, every sequence of page events while the
  request is in flight and every result \<open>r\<close> of the request, success or failure: once the
  turn resolves, the transcript is the one before the submit followed by the user entry
  and then one bot entry, so its length has grown by exactly 2, and \<open>isLoading\<close> is false.
\<close>

theorem turn_atomicity:
  assumes "\<not> isLoading (app \<sigma>)" and "inflight \<sigma> = []"
    and "trim (input (app \<sigma>)) \<noteq> []" and "is_submit e"
    and "\<forall>e'\<in>set es. \<not> is_Resolve e'"
  shows "(let \<sigma>' = steps (e # es @ [Resolve r]) \<sigma> in
      (\<exists>m. messages (app \<sigma>') =
            messages (app \<sigma>) @ [\<lparr>sender = js ''user'', text = JStr (input (app \<sigma>))\<rparr>, m]
          \<and> sender m = js ''bot'')
      \<and> length (messages (app \<sigma>')) = length (messages (app \<sigma>)) + 2
      \<and> \<not> isLoading (app \<sigma>'))"
proof -
  define \<sigma>' where "\<sigma>' = steps (e # es @ [Resolve r]) \<sigma>"
  define m where "m = (case sendMessage_try r of Inl e \<Rightarrow> errorMessage | Inr m \<Rightarrow> m)"
  have ms: "messages (app \<sigma>') =
      messages (app \<sigma>) @ [\<lparr>sender = js ''user'', text = JStr (input (app \<sigma>))\<rparr>, m]"
    unfolding \<sigma>'_def m_def using assms by (rule turn(1))
  have "sender m = js ''bot''"
  proof (cases "sendMessage_try r")
    case (Inl err)
    then show ?thesis by (simp add: m_def errorMessage_def)
  next
    case (Inr b)
    then show ?thesis by (simp add: m_def try_sender)
  qed
  with ms have ex: "\<exists>m. messages (app \<sigma>') =
      messages (app \<sigma>) @ [\<lparr>sender = js ''user'', text = JStr (input (app \<sigma>))\<rparr>, m]
      \<and> sender m = js ''bot''"
    by blast
  have len: "length (messages (app \<sigma>')) = length (messages (app \<sigma>)) + 2"
    using ms by simp
  have idle: "\<not> isLoading (app \<sigma>')"
    unfolding \<sigma>'_def using assms by (rule turn(2))
  from ex len idle show ?thesis
    unfolding \<sigma>'_def by (simp only: Let_def simp_thms)
qed

text \<open>C4 at a successful turn during which the user clicks and presses Enter again.\<close>

theorem turn_atomicity_witness:
  "length (messages (app (steps
      [KeyDown (js ''Enter''), Click, FileChange [], KeyDown (js ''Enter''),
       Resolve (Resolved \<lparr>ok = True, status = 200, json = Some (JObj [(js ''response'', JStr (js ''ok''))])\<rparr>)]
      \<lparr>app = initial\<lparr>input := js ''Hi''\<rparr>, inflight = []\<rparr>))) = 2
   \<and> \<not> isLoading (app (steps
      [KeyDown (js ''Enter''), Click, FileChange [], KeyDown (js ''Enter''),
       Resolve (Resolved \<lparr>ok = True, status = 200, json = Some (JObj [(js ''response'', JStr (js ''ok''))])\<rparr>)]
      \<lparr>app = initial\<lparr>input := js ''Hi''\<rparr>, inflight = []\<rparr>))"
proof -
  have w: "trim (js ''Hi'') \<noteq> []"
    by (simp add: trim_def isWhiteSpace_def js_def)
  have u: "\<forall>e'\<in>set [Click, FileChange [], KeyDown (js ''Enter'')]. \<not> is_Resolve e'"
    by simp
  have "(let \<sigma>' = steps (KeyDown (js ''Enter'') # [Click, FileChange [], KeyDown (js ''Enter'')]
                @ [Resolve (Resolved \<lparr>ok = True, status = 200,
                     json = Some (JObj [(js ''response'', JStr (js ''ok''))])\<rparr>)])
              \<lparr>app = initial\<lparr>input := js ''Hi''\<rparr>, inflight = []\<rparr> in
      (\<exists>m. messages (app \<sigma>') =
            messages (app \<lparr>app = initial\<lparr>input := js ''Hi''\<rparr>, inflight = []\<rparr>) @
              [\<lparr>sender = js ''user'',
                text = JStr (input (app \<lparr>app = initial\<lparr>input := js ''Hi''\<rparr>, inflight = []\<rparr>))\<rparr>, m]
          \<and> sender m = js ''bot'')
      \<and> length (messages (app \<sigma>')) =
          length (messages (app \<lparr>app = initial\<lparr>input := js ''Hi''\<rparr>, inflight = []\<rparr>)) + 2
      \<and> \<not> isLoading (app \<sigma>'))"
    by (rule turn_atomicity [OF _ _ _ _ u]) (simp_all add: initial_def w)
  then show ?thesis
    by (simp add: Let_def initial_def)
qed

subsection \<open>C5: no second turn while one is in flight\<close>

text \<open>
  C5. In every state with \<open>isLoading\<close> true, a submit (the Enter key or the button) leaves
  the whole session as it is: neither handler calls a setter or \<^verbatim>\<open>fetch\<close>. Consequently,
  whatever the page does before the result arrives, the transcript gets no further entry
  and the requests in flight stay the same: nothing is sent and nothing is queued. And in
  every session reached from the initial one, by any events, at most one request is in
  flight.
\<close>

theorem busy_submit_dropped:
  assumes "isLoading (app \<sigma>)" and "is_submit e" and "\<forall>e'\<in>set es. \<not> is_Resolve e'"
  shows "step e \<sigma> = \<sigma>
    \<and> handleKeyDown key (app \<sigma>) = []
    \<and> button_onClick (app \<sigma>) = []
    \<and> messages (app (steps es \<sigma>)) = messages (app \<sigma>)
    \<and> inflight (steps es \<sigma>) = inflight \<sigma>
    \<and> length (inflight (steps es0 \<lparr>app = initial, inflight = []\<rparr>)) \<le> 1"
  using assms busy_ui_steps [of \<sigma> es] reachable_one_in_flight [of es0]
  by (simp add: submit_busy handleKeyDown_def button_onClick_def)

text \<open>C5 at a session with one request in flight and a non-blank pending input.\<close>

theorem busy_submit_dropped_witness:
  "step Click
     \<lparr>app = \<lparr>messages = [\<lparr>sender = js ''user'', text = JStr (js ''Hi'')\<rparr>], input = js ''more'',
             isLoading = True, selectedFile = None\<rparr>,
      inflight = [\<lparr>url = js ''/api/chat'', http_method = js ''POST'',
                  headers = [(js ''Content-Type'', js ''application/json'')],
                  body = JObj [(js ''user_message'', JStr (js ''Hi''))]\<rparr>]\<rparr>
   = \<lparr>app = \<lparr>messages = [\<lparr>sender = js ''user'', text = JStr (js ''Hi'')\<rparr>], input = js ''more'',
             isLoading = True, selectedFile = None\<rparr>,
      inflight = [\<lparr>url = js ''/api/chat'', http_method = js ''POST'',
                  headers = [(js ''Content-Type'', js ''application/json'')],
                  body = JObj [(js ''user_message'', JStr (js ''Hi''))]\<rparr>]\<rparr>
   \<and> inflight (steps [KeyDown (js ''Enter''), Click]
     \<lparr>app = \<lparr>messages = [\<lparr>sender = js ''user'', text = JStr (js ''Hi'')\<rparr>], input = js ''more'',
             isLoading = True, selectedFile = None\<rparr>,
      inflight = [\<lparr>url = js ''/api/chat'', http_method = js ''POST'',
                  headers = [(js ''Content-Type'', js ''application/json'')],
                  body = JObj [(js ''user_message'', JStr (js ''Hi''))]\<rparr>]\<rparr>)
   = [\<lparr>url = js ''/api/chat'', http_method = js ''POST'',
                  headers = [(js ''Content-Type'', js ''application/json'')],
                  body = JObj [(js ''user_message'', JStr (js ''Hi''))]\<rparr>]"
  using busy_submit_dropped
    [of "\<lparr>app = \<lparr>messages = [\<lparr>sender = js ''user'', text = JStr (js ''Hi'')\<rparr>], input = js ''more'',
             isLoading = True, selectedFile = None\<rparr>,
      inflight = [\<lparr>url = js ''/api/chat'', http_method = js ''POST'',
                  headers = [(js ''Content-Type'', js ''application/json'')],
                  body = JObj [(js ''user_message'', JStr (js ''Hi''))]\<rparr>]\<rparr>"
        Click "[KeyDown (js ''Enter''), Click]" "js ''Enter''" "[]"]
  by (simp add: button_onClick_def handleKeyDown_def dispatch_def)

subsection \<open>C6: the transcript is append-only\<close>

text \<open>
  C6. For every session and every sequence of events (submits, edits of the input, file
  selections, arrivals of results), the transcript at any moment is an initial segment of
  the transcript at any later moment: its length never decreases and the entries it
  already has keep their position, sender and text.
\<close>

theorem transcript_append_only:
  "take (length (messages (app (steps es1 \<sigma>)))) (messages (app (steps (es1 @ es2) \<sigma>)))
     = messages (app (steps es1 \<sigma>))
   \<and> length (messages (app (steps es1 \<sigma>))) \<le> length (messages (app (steps (es1 @ es2) \<sigma>)))"
proof -
  obtain ms where "messages (app (steps es2 (steps es1 \<sigma>))) = messages (app (steps es1 \<sigma>)) @ ms"
    using steps_messages by blast
  then show ?thesis
    by (simp add: steps_append)
qed

text \<open>C6 at a failed turn followed by an edit and a second submit.\<close>

theorem transcript_append_only_witness:
  "take 2 (messages (app (steps
      [Click, Resolve Rejected, Change (js ''b''), Click]
      \<lparr>app = initial\<lparr>input := js ''a''\<rparr>, inflight = []\<rparr>)))
   = [\<lparr>sender = js ''user'', text = JStr (js ''a'')\<rparr>, errorMessage]"
  using transcript_append_only
    [of "[Click, Resolve Rejected]" "\<lparr>app = initial\<lparr>input := js ''a''\<rparr>, inflight = []\<rparr>"
        "[Change (js ''b''), Click]"]
  by (simp add: initial_def button_onClick_def sendMessage_sync_def trim_def isWhiteSpace_def
      dispatch_def sendMessage_await_def sendMessage_try_def input_onChange_def js_def)

subsection \<open>C7: a blank input is not submitted\<close>

text \<open>
  C7. When the input is empty or made of whitespace only, \<^verbatim>\<open>sendMessage\<close> calls no setter and
  no \<^verbatim>\<open>fetch\<close>, and a submit leaves the whole session as it is: same transcript, same
  \<open>isLoading\<close>, same input (it is not cleared), nothing in flight added.
\<close>

theorem blank_submit_is_noop:
  assumes "list_all isWhiteSpace (input (app \<sigma>))" and "is_submit e"
  shows "sendMessage_sync (app \<sigma>) = [] \<and> step e \<sigma> = \<sigma>"
proof -
  have blank: "sendMessage_sync (app \<sigma>) = []"
    using assms(1) by (simp add: sendMessage_sync_blank trim_Nil_iff)
  have "step e \<sigma> = \<sigma>"
  proof (cases "isLoading (app \<sigma>)")
    case True
    with assms(2) show ?thesis by (simp add: submit_busy)
  next
    case False
    with assms(2) blank show ?thesis by (simp add: submit_effects dispatch_Nil)
  qed
  with blank show ?thesis by simp
qed

text \<open>C7 at an input of three spaces and at the empty input.\<close>

theorem blank_submit_is_noop_witness:
  "step Click \<lparr>app = initial\<lparr>input := js ''   ''\<rparr>, inflight = []\<rparr>
     = \<lparr>app = initial\<lparr>input := js ''   ''\<rparr>, inflight = []\<rparr>
   \<and> step (KeyDown (js ''Enter'')) \<lparr>app = initial, inflight = []\<rparr> = \<lparr>app = initial, inflight = []\<rparr>"
  using blank_submit_is_noop [of "\<lparr>app = initial\<lparr>input := js ''   ''\<rparr>, inflight = []\<rparr>" Click]
    blank_submit_is_noop [of "\<lparr>app = initial, inflight = []\<rparr>" "KeyDown (js ''Enter'')"]
  by (simp add: initial_def isWhiteSpace_def js_def)

subsection \<open>C8: the input is cleared when the turn starts\<close>

text \<open>
  C8. For every input whose trim is not empty, \<^verbatim>\<open>sendMessage\<close> makes exactly four calls
  before it suspends, in this order: the append of the user entry, \<^verbatim>\<open>setInput('')\<close>,
  \<^verbatim>\<open>setIsLoading(true)\<close> and \<^verbatim>\<open>fetch\<close>. So the input is cleared after the entry is appended
  and before the request is issued; and the part that runs when the result arrives leaves
  the input as it finds it.
\<close>

theorem input_cleared_at_initiation:
  assumes "trim (input s) \<noteq> []"
  shows "(\<exists>m q. sendMessage_sync s = [SetMessages m, SetInput [], SetIsLoading True, Fetch q])
    \<and> input (run (sendMessage_sync s) s) = []
    \<and> input (run (sendMessage_await r) s') = input s'"
  using assms by (simp add: sendMessage_sync_valid run_await)

text \<open>C8 at the input \<^verbatim>\<open>"Hi"\<close>, and at a rejection that arrives while \<^verbatim>\<open>"next"\<close> is typed.\<close>

theorem input_cleared_at_initiation_witness:
  "input (run (sendMessage_sync (initial\<lparr>input := js ''Hi''\<rparr>)) (initial\<lparr>input := js ''Hi''\<rparr>)) = []
   \<and> input (run (sendMessage_await Rejected) (initial\<lparr>input := js ''next''\<rparr>)) = js ''next''"
  using input_cleared_at_initiation
    [of "initial\<lparr>input := js ''Hi''\<rparr>" Rejected "initial\<lparr>input := js ''next''\<rparr>"]
  by (simp add: initial_def trim_def isWhiteSpace_def js_def)

subsection \<open>C9: the two variants of \<^verbatim>\<open>sendMessage\<close>\<close>

text \<open>
  C9. For every state and every result of the request, the variant in \<^verbatim>\<open>src/Dockerfile\<close>
  and the one in \<^verbatim>\<open>App.jsx\<close> make the same calls after the \<^verbatim>\<open>await\<close> (the same bot entry or
  the same apology, then \<open>isLoading\<close> false), and reach the same state before it (same
  transcript, input and \<open>isLoading\<close>). They issue the same number of requests, and a
  request of the one is the request of the other with another URL and with the input
  under \<^verbatim>\<open>message\<close> instead of \<^verbatim>\<open>user_message\<close>.
\<close>

theorem docker_variant_equivalent:
  "docker_sendMessage_await r = sendMessage_await r
   \<and> run (docker_sendMessage_sync s) s = run (sendMessage_sync s) s
   \<and> fetches (docker_sendMessage_sync s) =
       map (\<lambda>q. q\<lparr>url := API_URL @ js ''/chat'', body := JObj [(js ''message'', JStr (input s))]\<rparr>)
         (fetches (sendMessage_sync s))
   \<and> map body (fetches (sendMessage_sync s)) =
       map (\<lambda>q. JObj [(js ''user_message'', JStr (input s))]) (fetches (docker_sendMessage_sync s))"
proof -
  have t: "docker_sendMessage_try r = sendMessage_try r"
    by (simp add: docker_sendMessage_try_def sendMessage_try_def)
  have a: "docker_sendMessage_await r = sendMessage_await r"
    by (simp add: docker_sendMessage_await_def sendMessage_await_def t errorMessage_def
        split: sum.splits)
  have s: "run (docker_sendMessage_sync s) s = run (sendMessage_sync s) s"
    by (simp add: docker_sendMessage_sync_def sendMessage_sync_def)
  have f: "fetches (docker_sendMessage_sync s) =
       map (\<lambda>q. q\<lparr>url := API_URL @ js ''/chat'', body := JObj [(js ''message'', JStr (input s))]\<rparr>)
         (fetches (sendMessage_sync s))"
    by (simp add: docker_sendMessage_sync_def sendMessage_sync_def)
  have b: "map body (fetches (sendMessage_sync s)) =
       map (\<lambda>q. JObj [(js ''user_message'', JStr (input s))]) (fetches (docker_sendMessage_sync s))"
    by (simp add: docker_sendMessage_sync_def sendMessage_sync_def)
  from a s f b show ?thesis by (simp only: simp_thms)
qed

text \<open>C9 at the input \<^verbatim>\<open>"Hi"\<close> and a status 404 answer.\<close>

theorem docker_variant_equivalent_witness:
  "run (docker_sendMessage_sync (initial\<lparr>input := js ''Hi''\<rparr>)) (initial\<lparr>input := js ''Hi''\<rparr>)
     = \<lparr>messages = [\<lparr>sender = js ''user'', text = JStr (js ''Hi'')\<rparr>], input = [], isLoading = True,
        selectedFile = None\<rparr>
   \<and> docker_sendMessage_await (Resolved \<lparr>ok = False, status = 404, json = None\<rparr>)
     = [ConsoleError (js ''Erro ao enviar mensagem:'') (HttpError 404), SetMessages errorMessage,
        SetIsLoading False]"
  using docker_variant_equivalent
    [of "Resolved \<lparr>ok = False, status = 404, json = None\<rparr>" "initial\<lparr>input := js ''Hi''\<rparr>"]
  by (simp add: initial_def sendMessage_sync_def sendMessage_await_def sendMessage_try_def
      trim_def isWhiteSpace_def js_def)

subsection \<open>C10: selecting a file\<close>

text \<open>
  C10. For every list of selected files, \<^verbatim>\<open>handleFileChange\<close> changes at most
  \<open>selectedFile\<close>: the transcript, the input and \<open>isLoading\<close> stay as they are, the handler
  issues no request, and the requests in flight are the same after the event.
\<close>

theorem handleFileChange_frame:
  "run (handleFileChange files) s =
     s\<lparr>selectedFile := (case files of [] \<Rightarrow> selectedFile s | file # rest \<Rightarrow> Some file)\<rparr>
   \<and> messages (run (handleFileChange files) s) = messages s
   \<and> input (run (handleFileChange files) s) = input s
   \<and> isLoading (run (handleFileChange files) s) = isLoading s
   \<and> fetches (handleFileChange files) = []
   \<and> inflight (step (FileChange files) \<sigma>) = inflight \<sigma>"
  by (simp add: handleFileChange_def dispatch_def split: list.splits)

text \<open>C10 at the selection of one file while a request is in flight.\<close>

theorem handleFileChange_frame_witness:
  "run (handleFileChange [\<lparr>name = js ''a.csv'', contents = [1, 2]\<rparr>])
      \<lparr>messages = [errorMessage], input = js ''x'', isLoading = True, selectedFile = None\<rparr>
    = \<lparr>messages = [errorMessage], input = js ''x'', isLoading = True,
       selectedFile = Some \<lparr>name = js ''a.csv'', contents = [1, 2]\<rparr>\<rparr>"
  using handleFileChange_frame
    [of "[\<lparr>name = js ''a.csv'', contents = [1, 2]\<rparr>]"
        "\<lparr>messages = [errorMessage], input = js ''x'', isLoading = True, selectedFile = None\<rparr>"]
  by simp

end
